theory Spec2Isabelle
  imports Main
begin

section \<open>Data model of \<open>meme_generator.py\<close>\<close>

text \<open>
  The program is one class, \<open>MyForm\<close>, whose attributes and the two text widgets form the
  session state. Its handlers are modelled as functions from state to state. What the
  handlers ask of Pillow, the file system, the random generator and the dialogs is not
  code of the repository: those answers are inputs of the model (the record \<open>world\<close>
  and the arguments of the handlers).
\<close>

subsection \<open>Python exceptions\<close>

datatype exc_class =
  FileNotFoundError | ValueError | IndexError | AttributeError | SystemExit | OtherError

text \<open>An exception object: its class and the text \<open>str(e)\<close> gives.\<close>

datatype py_error = PyError (exc_kind: exc_class) (exc_text: string)

subsection \<open>Pillow images, fonts and draw calls\<close>

text \<open>\<open>ImageFont.truetype(path, size)\<close> and \<open>ImageFont.load_default()\<close>.\<close>

datatype font = TrueType string int | DefaultFont

text \<open>
  One call \<open>draw.text(xy, text, fill=.., font=.., stroke_width=.., stroke_fill=..)\<close>.
\<close>

datatype draw_call =
  DrawText (call_xy: "int \<times> int") (call_text: string) (call_fill: string) (call_font: font)
    (call_stroke_width: int) (call_stroke_fill: string)

text \<open>
  An RGBA image. Pillow rasterises each \<open>draw.text\<close> into the pixel buffer; the model
  keeps the decoded buffer as it was opened (\<open>pixels\<close>) and the sequence of draw calls
  applied to it since (\<open>drawn\<close>), in order.
\<close>

record pil_image =
  width :: int
  height :: int
  pixels :: "nat list"
  drawn :: "draw_call list"

text \<open>
  What the label \<open>imageCanvas\<close> shows: the image it was made from and the size it was
  resized to.
\<close>

datatype pixmap = Pixmap pil_image "int \<times> int"

text \<open>A \<open>QMessageBox\<close> shown to the user: window title and text.\<close>

datatype message = MessageBox (title: string) (body: string)

subsection \<open>The environment\<close>

text \<open>
  How the block of \<open>__init__\<close> that sets up the X clients ends: both clients constructed,
  an exception while constructing them (with its text), or tweepy or one of the four
  keys missing.
\<close>

datatype x_api_status = XApiReady | XApiInitFailed string | XApiMissing

record world =
  base_dir :: string
  path_exists :: "string \<Rightarrow> bool"
  listdir :: "string \<Rightarrow> string list"
  image_open :: "string \<Rightarrow> py_error + pil_image"
  csv_rows :: "string \<Rightarrow> py_error + string list list"
  textbbox :: "int \<times> int \<Rightarrow> string \<Rightarrow> font \<Rightarrow> int \<times> int \<times> int \<times> int"
  canvas_size :: "int \<times> int"
  x_api :: x_api_status

text \<open>
  \<^item> \<open>base_dir\<close>: \<open>sys._MEIPASS\<close> when it exists, else \<open>os.path.dirname(__file__)\<close>;
  \<^item> \<open>path_exists\<close>, \<open>listdir\<close>: \<open>os.path.exists\<close>, \<open>os.listdir\<close>;
  \<^item> \<open>image_open p\<close>: \<open>Image.open(p).convert("RGBA")\<close>, or the exception it raises;
  \<^item> \<open>csv_rows p\<close>: the rows \<open>csv.reader\<close> yields from the file opened at \<open>p\<close> (each row
    a list of fields; a blank line is the empty row), or the exception raised by
    \<open>open\<close> or while reading;
  \<^item> \<open>textbbox\<close>: \<open>draw.textbbox(xy, text, font=font)\<close>, as (left, top, right, bottom);
  \<^item> \<open>canvas_size\<close>: \<open>self.ui.imageCanvas.size()\<close>;
  \<^item> \<open>x_api\<close>: see \<open>x_api_status\<close>.
\<close>

subsection \<open>The session state\<close>

text \<open>
  The attributes of \<open>MyForm\<close> (\<open>self.image\<close> is \<open>image_cur\<close> here), the text of the two
  line edits, the pixmap of the canvas label, and what the session has shown, written
  and posted so far.
\<close>

record state =
  image_folder :: string
  image_cur :: "pil_image option"
  original_image :: "pil_image option"
  current_font_size :: int
  current_padding :: int
  current_top_left_margin :: int
  current_bottom_padding :: int
  font_path :: "string option"
  captions :: "string list"
  image_files :: "string list"
  twitter_ready :: bool
  top_text :: string
  bottom_text :: string
  canvas :: "pixmap option"
  messages :: "message list"
  saved_files :: "(string \<times> pil_image) list"
  tweets :: "(string \<times> pil_image \<times> bool) list"

text \<open>
  A handler either returns the new state (\<open>Inr\<close>) or raises: \<open>Inl (e, s)\<close> is the
  exception \<open>e\<close> with the state \<open>s\<close> reached when it was raised.
\<close>

type_synonym result = "(py_error \<times> state) + state"

definition and_then :: "result \<Rightarrow> (state \<Rightarrow> result) \<Rightarrow> result" where
  "and_then r f = (case r of Inl x \<Rightarrow> Inl x | Inr s \<Rightarrow> f s)"

text \<open>\<open>try: r  except Exception as e: h\<close>.\<close>

definition try_except :: "result \<Rightarrow> (py_error \<Rightarrow> state \<Rightarrow> state) \<Rightarrow> result" where
  "try_except r h = (case r of Inl (e, s) \<Rightarrow> Inr (h e s) | Inr s \<Rightarrow> Inr s)"

definition show_message :: "string \<Rightarrow> string \<Rightarrow> state \<Rightarrow> state" where
  "show_message t b s = s\<lparr>messages := messages s @ [MessageBox t b]\<rparr>"

section \<open>The compositor: \<open>update_canvas\<close>\<close>

text \<open>
  The calls into Pillow and Qt of lines 420 to 440 (loading the font, measuring and
  drawing the text, resizing, building the pixmap) are taken to return; what the code
  itself can raise there, the \<open>copy\<close> of a missing original, is a branch of the model.
  Logging is left out.
\<close>

definition draw_text ::
  "pil_image \<Rightarrow> int \<times> int \<Rightarrow> string \<Rightarrow> string \<Rightarrow> font \<Rightarrow> int \<Rightarrow> string \<Rightarrow> pil_image" where
  "draw_text img pos t fl f sw sf = img\<lparr>drawn := drawn img @ [DrawText pos t fl f sw sf]\<rparr>"

text \<open>
  Line 422: the TrueType font at the current size when \<open>self.font_path\<close> is a non-empty
  string, Pillow's default font when it is \<open>None\<close> (or empty).
\<close>

definition load_font :: "string option \<Rightarrow> int \<Rightarrow> font" where
  "load_font fpath font_size =
     (case fpath of
        Some p \<Rightarrow> if p \<noteq> [] then TrueType p font_size else DefaultFont
      | None \<Rightarrow> DefaultFont)"

text \<open>
  Lines 420 to 433 of \<open>update_canvas\<close>: the copy of the original with the two captions
  drawn. The arguments are what those lines read: the original image, \<open>self.font_path\<close>,
  the two texts and the four parameters.
\<close>

definition render ::
  "world \<Rightarrow> string option \<Rightarrow> pil_image \<Rightarrow> string \<Rightarrow> string \<Rightarrow> int \<Rightarrow> int \<Rightarrow> int \<Rightarrow> int \<Rightarrow> pil_image" where
  "render w fpath original top_t bottom_t font_size padding margin bottom_padding =
     (let temp_image = original;
          font = load_font fpath font_size;
          temp_image =
            (if top_t \<noteq> [] then draw_text temp_image (margin, padding) top_t ''white'' font 2 ''black''
             else temp_image)
      in if bottom_t \<noteq> [] then
           (let bbox = textbbox w (0, 0) bottom_t font;
                text_height = snd (snd (snd bbox)) - fst (snd bbox);
                y_position = height temp_image - text_height - bottom_padding;
                y_position =
                  (if y_position < 0 then max 10 (height temp_image - text_height)
                   else y_position)
            in draw_text temp_image (margin, y_position) bottom_t ''white'' font 2 ''black'')
         else temp_image)"

definition update_canvas :: "world \<Rightarrow> state \<Rightarrow> result" where
  "update_canvas w s =
     (case image_cur s of
        None \<Rightarrow> Inr (s\<lparr>canvas := None\<rparr>)
      | Some _ \<Rightarrow>
          (case original_image s of
             None \<Rightarrow> Inl (PyError AttributeError ''NoneType object has no attribute copy'', s)
           | Some original \<Rightarrow>
               (let temp_image =
                      render w (font_path s) original (top_text s) (bottom_text s)
                        (current_font_size s) (current_padding s)
                        (current_top_left_margin s) (current_bottom_padding s)
                in Inr (s\<lparr>canvas := Some (Pixmap temp_image (canvas_size w)),
                          image_cur := Some temp_image\<rparr>))))"


section \<open>Helpers from the standard library\<close>

text \<open>\<open>str.endswith\<close>, case-sensitive.\<close>

definition endswith :: "string \<Rightarrow> string \<Rightarrow> bool" where
  "endswith s suf = (length suf \<le> length s \<and> drop (length s - length suf) s = suf)"

text \<open>\<open>os.path.join\<close> of two components, with the POSIX separator.\<close>

definition path_join :: "string \<Rightarrow> string \<Rightarrow> string" where
  "path_join a b =
     (if b \<noteq> [] \<and> hd b = CHR ''/'' then b
      else if a = [] \<or> last a = CHR ''/'' then a @ b
      else a @ ''/'' @ b)"

definition resource_path :: "world \<Rightarrow> string \<Rightarrow> string" where
  "resource_path w relative_path = path_join (base_dir w) relative_path"

text \<open>
  \<open>random.choice(seq)\<close>: IndexError on an empty sequence, else the element at the index
  the generator draws below \<open>len(seq)\<close>. The draw is the argument \<open>r\<close>, reduced below the
  length.
\<close>

definition random_choice :: "nat \<Rightarrow> 'a list \<Rightarrow> py_error + 'a" where
  "random_choice r seq =
     (if seq = [] then Inl (PyError IndexError ''Cannot choose from an empty sequence'')
      else Inr (seq ! (r mod length seq)))"

text \<open>
  \<open>str.isspace\<close> on one character, for the code points below 256 that a \<open>char\<close> holds:
  tab to carriage return, the four separators 28 to 31, space, NEL and the no-break space.
\<close>

definition isspace :: "char \<Rightarrow> bool" where
  "isspace c = (of_char c \<in> {9, 10, 11, 12, 13, 28, 29, 30, 31, 32, 133, 160 :: nat})"

text \<open>\<open>str.strip()\<close> with no argument.\<close>

definition strip :: "string \<Rightarrow> string" where
  "strip s = rev (dropWhile isspace (rev (dropWhile isspace s)))"

text \<open>\<open>str(n)\<close> for a natural number.\<close>

fun str_of_nat :: "nat \<Rightarrow> string" where
  "str_of_nat n =
     (if n < 10 then [char_of (48 + n)]
      else str_of_nat (n div 10) @ [char_of (48 + n mod 10)])"

declare str_of_nat.simps [simp del]

section \<open>The caption store: \<open>load_captions\<close>\<close>

text \<open>The literal list of lines 193 to 198, repeated at lines 214 to 219.\<close>

definition default_captions :: "string list" where
  "default_captions =
     [''LOL SO TRUE!'', ''EPIC FAIL!'', ''TOO FUNNY!'', ''MEME LORD!'',
      ''VIRAL VIBES!'', ''SAVAGE MODE!'', ''YOLO SWAG!'', ''BIG MOOD!'',
      ''NO CHILL!'', ''LMAO FOREVER!'', ''SPICY MEME!'', ''BESTIE ENERGY!'',
      ''ROASTED!'', ''ICONIC AF!'', ''SLAY QUEEN!'']"

text \<open>
  \<open>load_captions\<close> returns the captions and the message boxes it showed, or raises: the
  handler of line 207 catches FileNotFoundError and ValueError only.
\<close>

definition load_captions :: "world \<Rightarrow> py_error + (string list \<times> message list)" where
  "load_captions w =
     (let captions_path = resource_path w ''captions.csv''
      in if \<not> path_exists w captions_path then
           Inr (default_captions,
                [MessageBox ''Warning''
                   (''Captions file not found: '' @ captions_path @ ''. Using default captions.'')])
         else
           (case (case csv_rows w captions_path of
                    Inl e \<Rightarrow> Inl e
                  | Inr rows \<Rightarrow>
                      (let caps = map hd (filter (\<lambda>row. row \<noteq> []) rows)
                       in if caps = [] then Inl (PyError ValueError ''captions.csv is empty'')
                          else Inr caps)) of
              Inr caps \<Rightarrow> Inr (caps, [])
            | Inl e \<Rightarrow>
                if exc_kind e = FileNotFoundError \<or> exc_kind e = ValueError then
                  Inr (default_captions,
                       [MessageBox ''Warning''
                          (''Failed to load captions: '' @ exc_text e @ ''. Using default captions.'')])
                else Inl e))"

section \<open>Construction: \<open>__init__\<close>\<close>

definition init :: "world \<Rightarrow> py_error + state" where
  "init w =
     (if \<not> path_exists w (resource_path w ''meme_generator.ui'') then
        Inl (PyError SystemExit ''1'')
      else
        (let fp = resource_path w ''impact.ttf'';
             font_msgs =
               (if \<not> path_exists w fp then
                  [MessageBox ''Warning'' (''Font file not found: '' @ fp @ ''. Using default font.'')]
                else []);
             fpath = (if \<not> path_exists w fp then None else Some fp)
         in case load_captions w of
              Inl e \<Rightarrow> Inl e
            | Inr (caps, cap_msgs) \<Rightarrow>
                Inr \<lparr>image_folder = resource_path w ''images'',
                     image_cur = None,
                     original_image = None,
                     current_font_size = 75,
                     current_padding = 20,
                     current_top_left_margin = 10,
                     current_bottom_padding = 20,
                     font_path = fpath,
                     captions = caps,
                     image_files = [],
                     twitter_ready = (x_api w = XApiReady),
                     top_text = [],
                     bottom_text = [],
                     canvas = None,
                     messages = font_msgs @ cap_msgs @
                       (case x_api w of
                          XApiReady \<Rightarrow> []
                        | XApiInitFailed e \<Rightarrow>
                            [MessageBox ''Warning'' (''Failed to initialize X API: '' @ e)]
                        | XApiMissing \<Rightarrow>
                            [MessageBox ''Warning''
                               ''X API keys not set or tweepy library not found. X posting disabled.'']),
                     saved_files = [],
                     tweets = []\<rparr>))"

section \<open>The handlers\<close>

subsection \<open>The text fields\<close>

text \<open>
  Both line edits have \<open>textChanged\<close> connected to \<open>update_canvas\<close> (lines 171 and 172), and a
  line edit emits \<open>textChanged\<close> when its text becomes a different one, whether the user
  typed it or the program called \<open>setText\<close> or \<open>clear\<close>. An exception of the slot is passed
  on to the caller.
\<close>

definition topTextEdit_setText :: "world \<Rightarrow> string \<Rightarrow> state \<Rightarrow> result" where
  "topTextEdit_setText w t s =
     (if top_text s = t then Inr s else update_canvas w (s\<lparr>top_text := t\<rparr>))"

definition bottomTextEdit_setText :: "world \<Rightarrow> string \<Rightarrow> state \<Rightarrow> result" where
  "bottomTextEdit_setText w t s =
     (if bottom_text s = t then Inr s else update_canvas w (s\<lparr>bottom_text := t\<rparr>))"

subsection \<open>\<open>load_image\<close> and \<open>random_gacha\<close>\<close>

text \<open>The handler of lines 229 to 237, the same at lines 258 to 266.\<close>

definition load_failed :: "py_error \<Rightarrow> state \<Rightarrow> state" where
  "load_failed e s =
     (show_message ''Error'' (''Failed to load image: '' @ exc_text e) s)
       \<lparr>image_cur := None, original_image := None\<rparr>"

text \<open>\<open>file_name\<close> is what the file dialog returned: the empty string when cancelled.\<close>

definition load_image :: "world \<Rightarrow> string \<Rightarrow> state \<Rightarrow> result" where
  "load_image w file_name s =
     (if file_name \<noteq> [] then
        try_except
          (case image_open w file_name of
             Inl e \<Rightarrow> Inl (e, s)
           | Inr img \<Rightarrow> update_canvas w (s\<lparr>image_cur := Some img, original_image := Some img\<rparr>))
          load_failed
      else Inr s)"

text \<open>
  \<open>r_file\<close> and \<open>r_caption\<close> are the two draws of the random generator, in the order the
  code makes them; the second is made only when the image opened.
\<close>

definition random_gacha :: "world \<Rightarrow> nat \<Rightarrow> nat \<Rightarrow> state \<Rightarrow> result" where
  "random_gacha w r_file r_caption s =
     (if \<not> path_exists w (image_folder s) then
        Inr (show_message ''Warning'' (''Images folder not found: '' @ image_folder s) s)
      else
        (let s1 = s\<lparr>image_files :=
                      filter (\<lambda>f. endswith f ''.jpg'' \<or> endswith f ''.png'')
                        (listdir w (image_folder s))\<rparr>
         in if image_files s1 \<noteq> [] then
              (let selected_image =
                     path_join (image_folder s1)
                       (image_files s1 ! (r_file mod length (image_files s1)))
               in try_except
                    (case image_open w selected_image of
                       Inl e \<Rightarrow> Inl (e, s1)
                     | Inr img \<Rightarrow>
                         (let s2 = s1\<lparr>image_cur := Some img, original_image := Some img\<rparr>
                          in case random_choice r_caption (captions s2) of
                               Inl e \<Rightarrow> Inl (e, s2)
                             | Inr c \<Rightarrow>
                                 and_then
                                   (and_then (topTextEdit_setText w c s2)
                                      (bottomTextEdit_setText w []))
                                   (update_canvas w)))
                    load_failed)
            else Inr (show_message ''Warning'' ''No images found in images folder!'' s1)))"

subsection \<open>\<open>save_image\<close>, \<open>clear_canvas\<close>, \<open>share_to_x\<close>\<close>

text \<open>
  \<open>r\<close> is the draw behind \<open>random.randint(1, 1000)\<close>. Creating the folder and writing the
  file are taken to succeed; the file written is kept as its path and the image.
\<close>

definition save_image :: "nat \<Rightarrow> state \<Rightarrow> result" where
  "save_image r s =
     (case image_cur s of
        Some img \<Rightarrow>
          (let output_path = path_join ''output'' (''meme_'' @ str_of_nat (1 + r mod 1000) @ ''.png'')
           in Inr (show_message ''Saved'' (''Image saved as '' @ output_path)
                     (s\<lparr>saved_files := saved_files s @ [(output_path, img)]\<rparr>)))
      | None \<Rightarrow> Inr (show_message ''Warning'' ''No image to save!'' s))"

definition clear_canvas :: "world \<Rightarrow> state \<Rightarrow> result" where
  "clear_canvas w s =
     and_then
       (and_then (topTextEdit_setText w [] s) (bottomTextEdit_setText w []))
       (\<lambda>s. Inr (s\<lparr>image_cur := None, original_image := None, canvas := None\<rparr>))"

text \<open>Lines 371 to 373: the text that is posted for the text of the top field.\<close>

definition share_text :: "string \<Rightarrow> string" where
  "share_text t =
     (if strip t = [] then ''Check out my meme! #MemeGenerator #MadeByGrok'' else t)"

text \<open>
  \<open>dialog_yes\<close>: the user pressed Yes in the confirmation dialog. \<open>post_error\<close>: the
  exception raised by saving the temporary file, the upload or \<open>create_tweet\<close>, if any.
  A posted tweet is kept as its text, the image and whether the image was reduced by
  \<open>thumbnail((1280, 1280))\<close> before.
\<close>

definition share_to_x :: "bool \<Rightarrow> py_error option \<Rightarrow> state \<Rightarrow> result" where
  "share_to_x dialog_yes post_error s =
     (case image_cur s of
        None \<Rightarrow> Inr (show_message ''Warning'' ''No image to post!'' s)
      | Some img \<Rightarrow>
          if \<not> twitter_ready s then Inr (show_message ''Warning'' ''X API not initialized.'' s)
          else if dialog_yes then
            (case post_error of
               Some e \<Rightarrow> Inr (show_message ''Error'' (''Failed to post to X: '' @ exc_text e) s)
             | None \<Rightarrow>
                 Inr (show_message ''Success'' ''Meme posted to X!''
                        (s\<lparr>tweets := tweets s @
                             [(share_text (top_text s), img, width img > 1280 \<or> height img > 1280)]\<rparr>)))
          else Inr s)"

subsection \<open>The four sliders\<close>

definition update_font_size :: "world \<Rightarrow> int \<Rightarrow> state \<Rightarrow> result" where
  "update_font_size w v s =
     (let s1 = s\<lparr>current_font_size := v\<rparr>
      in if image_cur s1 \<noteq> None then update_canvas w s1 else Inr s1)"

definition update_padding :: "world \<Rightarrow> int \<Rightarrow> state \<Rightarrow> result" where
  "update_padding w v s =
     (let s1 = s\<lparr>current_padding := v\<rparr>
      in if image_cur s1 \<noteq> None then update_canvas w s1 else Inr s1)"

definition update_top_left_margin :: "world \<Rightarrow> int \<Rightarrow> state \<Rightarrow> result" where
  "update_top_left_margin w v s =
     (let s1 = s\<lparr>current_top_left_margin := v\<rparr>
      in if image_cur s1 \<noteq> None then update_canvas w s1 else Inr s1)"

definition update_bottom_padding :: "world \<Rightarrow> int \<Rightarrow> state \<Rightarrow> result" where
  "update_bottom_padding w v s =
     (let s1 = s\<lparr>current_bottom_padding := v\<rparr>
      in if image_cur s1 \<noteq> None then update_canvas w s1 else Inr s1)"

section \<open>Sessions\<close>

text \<open>
  One user action with the inputs it brings: the file chosen in the dialog, the random
  draws, the answer to the confirmation dialog and how the post went, a slider's new
  value, the new text of a field.
\<close>

datatype event =
  LoadImage string
| RandomGacha nat nat
| SaveImage nat
| ClearCanvas
| ShareToX bool "py_error option"
| FontSizeSlider int
| PaddingSlider int
| TopLeftMarginSlider int
| BottomPaddingSlider int
| TopTextEdited string
| BottomTextEdited string

fun step :: "world \<Rightarrow> event \<Rightarrow> state \<Rightarrow> result" where
  "step w (LoadImage file_name) s = load_image w file_name s"
| "step w (RandomGacha r_file r_caption) s = random_gacha w r_file r_caption s"
| "step w (SaveImage r) s = save_image r s"
| "step w ClearCanvas s = clear_canvas w s"
| "step w (ShareToX dialog_yes post_error) s = share_to_x dialog_yes post_error s"
| "step w (FontSizeSlider v) s = update_font_size w v s"
| "step w (PaddingSlider v) s = update_padding w v s"
| "step w (TopLeftMarginSlider v) s = update_top_left_margin w v s"
| "step w (BottomPaddingSlider v) s = update_bottom_padding w v s"
| "step w (TopTextEdited t) s = topTextEdit_setText w t s"
| "step w (BottomTextEdited t) s = bottomTextEdit_setText w t s"

text \<open>A session: the actions in order, each with the environment it finds.\<close>

fun run :: "(world \<times> event) list \<Rightarrow> state \<Rightarrow> result" where
  "run [] s = Inr s"
| "run ((w, ev) # evs) s = and_then (step w ev s) (run evs)"

section \<open>Notions used in the statements\<close>

text \<open>What \<open>update_canvas\<close> draws for the state \<open>s\<close> on the image \<open>original\<close>.\<close>

abbreviation rendered :: "world \<Rightarrow> state \<Rightarrow> pil_image \<Rightarrow> pil_image" where
  "rendered w s original \<equiv>
     render w (font_path s) original (top_text s) (bottom_text s) (current_font_size s)
       (current_padding s) (current_top_left_margin s) (current_bottom_padding s)"

text \<open>The list that line 249 assigns to \<open>self.image_files\<close>.\<close>

abbreviation matching_files :: "world \<Rightarrow> state \<Rightarrow> string list" where
  "matching_files w s \<equiv>
     filter (\<lambda>f. endswith f ''.jpg'' \<or> endswith f ''.png'') (listdir w (image_folder s))"

text \<open>
  The current image is the rendering of the retained original with the current texts and
  parameters; with no original there is no current image.
\<close>

definition consistent :: "world \<Rightarrow> state \<Rightarrow> bool" where
  "consistent w s =
     (case original_image s of
        None \<Rightarrow> image_cur s = None
      | Some b \<Rightarrow> image_cur s = Some (rendered w s b))"

text \<open>The original of \<open>s'\<close> is the one of \<open>s\<close> or an image just opened.\<close>

definition from_open :: "world \<Rightarrow> state \<Rightarrow> state \<Rightarrow> bool" where
  "from_open w s s' \<longleftrightarrow>
     (\<forall>b. original_image s' = Some b \<longrightarrow>
        original_image s = Some b \<or> (\<exists>p. image_open w p = Inr b))"

definition good_step :: "world \<Rightarrow> world \<Rightarrow> state \<Rightarrow> result \<Rightarrow> bool" where
  "good_step w w' s r \<longleftrightarrow> (\<exists>s'. r = Inr s' \<and> consistent w s' \<and> from_open w' s s')"

section \<open>A concrete installation\<close>

text \<open>
  A 400 by 300 image, a text measure that gives every text the height 60 at any font,
  and an installation in \<open>/app\<close> with the font, an images folder holding one matching
  file, and no \<open>captions.csv\<close>.
\<close>

definition example_image :: pil_image where
  "example_image = \<lparr>width = 400, height = 300, pixels = [], drawn = []\<rparr>"

definition example_world :: world where
  "example_world =
     \<lparr>base_dir = ''/app'',
      path_exists = (\<lambda>p. p = ''/app/meme_generator.ui'' \<or> p = ''/app/impact.ttf'' \<or> p = ''/app/images''),
      listdir = (\<lambda>d. if d = ''/app/images'' then [''cat.png'', ''notes.txt'', ''DOG.JPG''] else []),
      image_open =
        (\<lambda>p. if p = ''/app/images/cat.png'' then Inr example_image
             else Inl (PyError OtherError ''cannot identify image file'')),
      csv_rows = (\<lambda>p. Inl (PyError FileNotFoundError ''No such file or directory'')),
      textbbox = (\<lambda>pos t f. (0, 15, 40 * int (length t), 75)),
      canvas_size = (600, 450),
      x_api = XApiReady\<rparr>"

text \<open>The same installation with a \<open>captions.csv\<close> of the three lines \<open>,x\<close>, blank, \<open>ROASTED!,y\<close>.\<close>

definition example_csv_world :: world where
  "example_csv_world =
     example_world
       \<lparr>path_exists := (\<lambda>p. True),
        csv_rows := (\<lambda>p. Inr [[[], ''x''], [], [''ROASTED!'', ''y'']])\<rparr>"

text \<open>The same installation with an images folder that holds no \<open>.jpg\<close> or \<open>.png\<close> file.\<close>

definition example_empty_world :: world where
  "example_empty_world = example_world\<lparr>listdir := (\<lambda>d. [''notes.txt'', ''DOG.JPG''])\<rparr>"

text \<open>The state \<open>__init__\<close> leaves in \<open>example_world\<close>.\<close>

definition example_init :: state where
  "example_init =
     \<lparr>image_folder = ''/app/images'',
      image_cur = None,
      original_image = None,
      current_font_size = 75,
      current_padding = 20,
      current_top_left_margin = 10,
      current_bottom_padding = 20,
      font_path = Some ''/app/impact.ttf'',
      captions = default_captions,
      image_files = [],
      twitter_ready = True,
      top_text = [],
      bottom_text = [],
      canvas = None,
      messages =
        [MessageBox ''Warning''
           ''Captions file not found: /app/captions.csv. Using default captions.''],
      saved_files = [],
      tweets = []\<rparr>"

text \<open>
  A state with the example image loaded and the bottom caption typed, before any
  rendering of it.
\<close>

definition example_state :: state where
  "example_state =
     example_init
       \<lparr>image_cur := Some example_image,
        original_image := Some example_image,
        bottom_text := ''EPIC FAIL!''\<rparr>"

text \<open>
  A short session: load the image, type the bottom caption, then move the bottom padding
  slider to 280 (by which time the images folder has lost its matching file).
\<close>

definition example_session :: "(world \<times> event) list" where
  "example_session =
     [(example_world, LoadImage ''/app/images/cat.png''),
      (example_world, BottomTextEdited ''EPIC FAIL!''),
      (example_empty_world, BottomPaddingSlider 280)]"

text \<open>The same installation where no image file can be opened.\<close>

definition example_broken_world :: world where
  "example_broken_world =
     example_world\<lparr>image_open := (\<lambda>p. Inl (PyError OtherError ''cannot identify image file''))\<rparr>"



section \<open>Facts about the handlers\<close>

lemma update_canvas_None: "image_cur s = None \<Longrightarrow> update_canvas w s = Inr (s\<lparr>canvas := None\<rparr>)"
  by (simp add: update_canvas_def)

lemma update_canvas_Some:
  "image_cur s = Some c \<Longrightarrow> original_image s = Some b \<Longrightarrow>
   update_canvas w s =
     Inr (s\<lparr>canvas := Some (Pixmap (rendered w s b) (canvas_size w)),
            image_cur := Some (rendered w s b)\<rparr>)"
  by (simp add: update_canvas_def Let_def)

lemma render_cong:
  "textbbox w' = textbbox w \<Longrightarrow>
   render w' fp b t bo fs pad m bp = render w fp b t bo fs pad m bp"
  by (simp add: render_def Let_def)


lemma update_canvas_shape:
  assumes "image_cur s = None \<longleftrightarrow> original_image s = None" "textbbox w' = textbbox w"
  shows "\<exists>c i. update_canvas w' s = Inr (s\<lparr>canvas := c, image_cur := i\<rparr>) \<and>
           consistent w (s\<lparr>canvas := c, image_cur := i\<rparr>)"
proof (cases "image_cur s")
  case None
  then have "update_canvas w' s = Inr (s\<lparr>canvas := None, image_cur := None\<rparr>)"
    by (simp add: update_canvas_None)
  moreover have "consistent w (s\<lparr>canvas := None, image_cur := None\<rparr>)"
    using None assms(1) by (simp add: consistent_def)
  ultimately show ?thesis by blast
next
  case (Some c)
  then obtain b where b: "original_image s = Some b"
    using assms(1) by auto
  show ?thesis using Some b
    by (auto simp add: update_canvas_Some consistent_def render_cong[OF assms(2)])
qed

lemma consistent_paired: "consistent w s \<Longrightarrow> image_cur s = None \<longleftrightarrow> original_image s = None"
  by (auto simp: consistent_def split: option.splits)

lemma topTextEdit_setText_ok:
  assumes "consistent w s" "textbbox w' = textbbox w"
  shows "\<exists>c i. topTextEdit_setText w' t s = Inr (s\<lparr>top_text := t, canvas := c, image_cur := i\<rparr>) \<and>
           consistent w (s\<lparr>top_text := t, canvas := c, image_cur := i\<rparr>)"
proof (cases "top_text s = t")
  case True
  then have "s\<lparr>top_text := t, canvas := canvas s, image_cur := image_cur s\<rparr> = s" by simp
  then show ?thesis using True assms(1) by (metis topTextEdit_setText_def)
next
  case False
  have "image_cur (s\<lparr>top_text := t\<rparr>) = None \<longleftrightarrow> original_image (s\<lparr>top_text := t\<rparr>) = None"
    using consistent_paired[OF assms(1)] by simp
  from update_canvas_shape[OF this assms(2)] False show ?thesis
    by (simp add: topTextEdit_setText_def)
qed

lemma bottomTextEdit_setText_ok:
  assumes "consistent w s" "textbbox w' = textbbox w"
  shows "\<exists>c i. bottomTextEdit_setText w' t s = Inr (s\<lparr>bottom_text := t, canvas := c, image_cur := i\<rparr>) \<and>
           consistent w (s\<lparr>bottom_text := t, canvas := c, image_cur := i\<rparr>)"
proof (cases "bottom_text s = t")
  case True
  then have "s\<lparr>bottom_text := t, canvas := canvas s, image_cur := image_cur s\<rparr> = s" by simp
  then show ?thesis using True assms(1) by (metis bottomTextEdit_setText_def)
next
  case False
  have "image_cur (s\<lparr>bottom_text := t\<rparr>) = None \<longleftrightarrow> original_image (s\<lparr>bottom_text := t\<rparr>) = None"
    using consistent_paired[OF assms(1)] by simp
  from update_canvas_shape[OF this assms(2)] False show ?thesis
    by (simp add: bottomTextEdit_setText_def)
qed


lemma topTextEdit_setText_Some:
  assumes "image_cur s = Some x" "original_image s = Some b"
  shows "\<exists>c i. topTextEdit_setText w t s = Inr (s\<lparr>top_text := t, canvas := c, image_cur := Some i\<rparr>)"
proof (cases "top_text s = t")
  case True
  then have "s\<lparr>top_text := t, canvas := canvas s, image_cur := Some x\<rparr> = s"
    using assms(1) by simp
  then show ?thesis using True by (metis topTextEdit_setText_def)
next
  case False
  then show ?thesis using assms
    by (auto simp add: topTextEdit_setText_def update_canvas_Some)
qed

lemma bottomTextEdit_setText_Some:
  assumes "image_cur s = Some x" "original_image s = Some b"
  shows "\<exists>c i. bottomTextEdit_setText w t s = Inr (s\<lparr>bottom_text := t, canvas := c, image_cur := Some i\<rparr>)"
proof (cases "bottom_text s = t")
  case True
  then have "s\<lparr>bottom_text := t, canvas := canvas s, image_cur := Some x\<rparr> = s"
    using assms(1) by simp
  then show ?thesis using True by (metis bottomTextEdit_setText_def)
next
  case False
  then show ?thesis using assms
    by (auto simp add: bottomTextEdit_setText_def update_canvas_Some)
qed

lemma set_texts_then_render:
  assumes "image_cur s = Some img" "original_image s = Some img"
  shows "and_then (and_then (topTextEdit_setText w c s) (bottomTextEdit_setText w [])) (update_canvas w) =
     Inr (s\<lparr>top_text := c, bottom_text := [],
            canvas := Some (Pixmap (render w (font_path s) img c [] (current_font_size s)
                (current_padding s) (current_top_left_margin s) (current_bottom_padding s)) (canvas_size w)),
            image_cur := Some (render w (font_path s) img c [] (current_font_size s)
                (current_padding s) (current_top_left_margin s) (current_bottom_padding s))\<rparr>)"
proof -
  obtain c1 i1 where 1: "topTextEdit_setText w c s = Inr (s\<lparr>top_text := c, canvas := c1, image_cur := Some i1\<rparr>)"
    using topTextEdit_setText_Some[OF assms] by blast
  let ?s3 = "s\<lparr>top_text := c, canvas := c1, image_cur := Some i1\<rparr>"
  have "image_cur ?s3 = Some i1" "original_image ?s3 = Some img" using assms by simp_all
  from bottomTextEdit_setText_Some[OF this] obtain c2 i2 where
    2: "bottomTextEdit_setText w [] ?s3 = Inr (?s3\<lparr>bottom_text := [], canvas := c2, image_cur := Some i2\<rparr>)"
    by blast
  let ?s4 = "?s3\<lparr>bottom_text := [], canvas := c2, image_cur := Some i2\<rparr>"
  have "image_cur ?s4 = Some i2" "original_image ?s4 = Some img" using assms by simp_all
  from update_canvas_Some[OF this, of w] show ?thesis
    by (simp add: and_then_def 1 2)
qed

lemma random_gacha_success:
  assumes "path_exists w (image_folder s)" "matching_files w s \<noteq> []"
    "image_open w (path_join (image_folder s)
        (matching_files w s ! (r_file mod length (matching_files w s)))) = Inr img"
    "captions s \<noteq> []"
  shows "random_gacha w r_file r_caption s =
     Inr (s\<lparr>image_files := matching_files w s,
            original_image := Some img,
            top_text := captions s ! (r_caption mod length (captions s)),
            bottom_text := [],
            canvas := Some (Pixmap (render w (font_path s) img
                (captions s ! (r_caption mod length (captions s))) [] (current_font_size s)
                (current_padding s) (current_top_left_margin s) (current_bottom_padding s)) (canvas_size w)),
            image_cur := Some (render w (font_path s) img
                (captions s ! (r_caption mod length (captions s))) [] (current_font_size s)
                (current_padding s) (current_top_left_margin s) (current_bottom_padding s))\<rparr>)"
proof -
  let ?s2 = "s\<lparr>image_files := matching_files w s, image_cur := Some img, original_image := Some img\<rparr>"
  have "image_cur ?s2 = Some img" "original_image ?s2 = Some img" by simp_all
  from set_texts_then_render[OF this, of w "captions s ! (r_caption mod length (captions s))"]
  show ?thesis using assms
    by (simp add: random_gacha_def Let_def random_choice_def try_except_def)
qed


lemma good_stepI: "r = Inr s' \<Longrightarrow> consistent w s' \<Longrightarrow> from_open w' s s' \<Longrightarrow> good_step w w' s r"
  by (auto simp: good_step_def)

lemma load_image_good:
  assumes "consistent w s" "textbbox w' = textbbox w"
  shows "good_step w w' s (load_image w' file_name s)"
proof (cases "file_name = []")
  case True
  then show ?thesis using assms(1) by (simp add: load_image_def good_step_def from_open_def)
next
  case False
  show ?thesis
  proof (cases "image_open w' file_name")
    case (Inl e)
    then show ?thesis using False
      by (simp add: load_image_def try_except_def load_failed_def show_message_def
          good_step_def from_open_def consistent_def)
  next
    case (Inr img)
    let ?s1 = "s\<lparr>image_cur := Some img, original_image := Some img\<rparr>"
    have "image_cur ?s1 = Some img" "original_image ?s1 = Some img" by simp_all
    from update_canvas_Some[OF this, of w'] show ?thesis using False Inr
      by (auto simp add: load_image_def try_except_def good_step_def from_open_def consistent_def
          render_cong[OF assms(2)])
  qed
qed

lemma random_gacha_good:
  assumes "consistent w s" "textbbox w' = textbbox w"
  shows "good_step w w' s (random_gacha w' r1 r2 s)"
proof -
  let ?sel = "path_join (image_folder s) (matching_files w' s ! (r1 mod length (matching_files w' s)))"
  consider (missing) "\<not> path_exists w' (image_folder s)"
    | (nofiles) "path_exists w' (image_folder s)" "matching_files w' s = []"
    | (bad) e where "path_exists w' (image_folder s)" "matching_files w' s \<noteq> []" "image_open w' ?sel = Inl e"
    | (nocap) img where "path_exists w' (image_folder s)" "matching_files w' s \<noteq> []"
        "image_open w' ?sel = Inr img" "captions s = []"
    | (ok) img where "path_exists w' (image_folder s)" "matching_files w' s \<noteq> []"
        "image_open w' ?sel = Inr img" "captions s \<noteq> []"
    by (cases "image_open w' ?sel") auto
  then show ?thesis
  proof cases
    case missing
    then show ?thesis using assms(1)
      by (simp add: random_gacha_def show_message_def good_step_def from_open_def consistent_def
          split: option.splits)
  next
    case nofiles
    then show ?thesis using assms(1)
      by (simp add: random_gacha_def show_message_def good_step_def from_open_def consistent_def
          split: option.splits)
  next
    case bad
    then show ?thesis
      by (simp add: random_gacha_def Let_def try_except_def load_failed_def show_message_def
          good_step_def from_open_def consistent_def)
  next
    case nocap
    then show ?thesis
      by (simp add: random_gacha_def Let_def try_except_def load_failed_def show_message_def
          random_choice_def good_step_def from_open_def consistent_def)
  next
    case ok
    from random_gacha_success[OF ok, of r2] ok(3) show ?thesis
      by (auto simp add: good_step_def from_open_def consistent_def render_cong[OF assms(2)])
  qed
qed

lemma slider_good:
  assumes "consistent w s" "textbbox w' = textbbox w"
  shows "good_step w w' s (update_font_size w' v s)"
    and "good_step w w' s (update_padding w' v s)"
    and "good_step w w' s (update_top_left_margin w' v s)"
    and "good_step w w' s (update_bottom_padding w' v s)"
proof -
  have p: "image_cur s = None \<longleftrightarrow> original_image s = None"
    using consistent_paired[OF assms(1)] .
  have key: "good_step w w' s (if image_cur s1 \<noteq> None then update_canvas w' s1 else Inr s1)"
    if "image_cur s1 = image_cur s" "original_image s1 = original_image s" for s1
  proof (cases "image_cur s1")
    case None
    then show ?thesis using that p
      by (simp add: good_step_def from_open_def consistent_def)
  next
    case (Some a)
    have "image_cur s1 = None \<longleftrightarrow> original_image s1 = None" using that p by simp
    from update_canvas_shape[OF this assms(2)] Some that show ?thesis
      by (auto simp add: good_step_def from_open_def)
  qed
  show "good_step w w' s (update_font_size w' v s)"
    unfolding update_font_size_def Let_def by (rule key) simp_all
  show "good_step w w' s (update_padding w' v s)"
    unfolding update_padding_def Let_def by (rule key) simp_all
  show "good_step w w' s (update_top_left_margin w' v s)"
    unfolding update_top_left_margin_def Let_def by (rule key) simp_all
  show "good_step w w' s (update_bottom_padding w' v s)"
    unfolding update_bottom_padding_def Let_def by (rule key) simp_all
qed

lemma clear_canvas_result:
  assumes "consistent w s" "textbbox w' = textbbox w"
  shows "clear_canvas w' s =
    Inr (s\<lparr>top_text := [], bottom_text := [], image_cur := None, original_image := None, canvas := None\<rparr>)"
proof -
  obtain c1 i1 where 1: "topTextEdit_setText w' [] s = Inr (s\<lparr>top_text := [], canvas := c1, image_cur := i1\<rparr>)"
    and c1: "consistent w (s\<lparr>top_text := [], canvas := c1, image_cur := i1\<rparr>)"
    using topTextEdit_setText_ok[OF assms] by blast
  obtain c2 i2 where 2: "bottomTextEdit_setText w' [] (s\<lparr>top_text := [], canvas := c1, image_cur := i1\<rparr>) =
      Inr (s\<lparr>top_text := [], canvas := c1, image_cur := i1, bottom_text := [], canvas := c2, image_cur := i2\<rparr>)"
    using bottomTextEdit_setText_ok[OF c1 assms(2)] by blast
  show ?thesis by (simp add: clear_canvas_def and_then_def 1 2)
qed

lemma step_good:
  assumes "consistent w s" "textbbox w' = textbbox w"
  shows "good_step w w' s (step w' ev s)"
proof (cases ev)
  case (LoadImage x1)
  then show ?thesis using load_image_good[OF assms] by simp
next
  case (RandomGacha x21 x22)
  then show ?thesis using random_gacha_good[OF assms] by simp
next
  case (SaveImage x3)
  then show ?thesis using assms(1)
    by (auto simp add: save_image_def show_message_def good_step_def from_open_def consistent_def Let_def
        split: option.splits)
next
  case ClearCanvas
  then show ?thesis using clear_canvas_result[OF assms]
    by (simp add: good_step_def from_open_def consistent_def)
next
  case (ShareToX x51 x52)
  then show ?thesis using assms(1)
    by (auto simp add: share_to_x_def show_message_def good_step_def from_open_def consistent_def
        split: option.splits)
next
  case (FontSizeSlider x6)
  then show ?thesis using slider_good[OF assms] by simp
next
  case (PaddingSlider x7)
  then show ?thesis using slider_good[OF assms] by simp
next
  case (TopLeftMarginSlider x8)
  then show ?thesis using slider_good[OF assms] by simp
next
  case (BottomPaddingSlider x9)
  then show ?thesis using slider_good[OF assms] by simp
next
  case (TopTextEdited t)
  then show ?thesis using topTextEdit_setText_ok[OF assms, of t]
    by (auto simp add: good_step_def from_open_def)
next
  case (BottomTextEdited t)
  then show ?thesis using bottomTextEdit_setText_ok[OF assms, of t]
    by (auto simp add: good_step_def from_open_def)
qed

lemma run_good:
  assumes "\<forall>(w', ev)\<in>set evs. textbbox w' = textbbox w" "consistent w s0"
    "\<forall>b. original_image s0 = Some b \<longrightarrow> Q b"
    "\<forall>(w', ev)\<in>set evs. \<forall>p b. image_open w' p = Inr b \<longrightarrow> Q b"
  shows "\<exists>s. run evs s0 = Inr s \<and> consistent w s \<and> (\<forall>b. original_image s = Some b \<longrightarrow> Q b)"
  using assms
proof (induction evs arbitrary: s0)
  case Nil
  then show ?case by simp
next
  case (Cons a evs)
  obtain w' ev where a: "a = (w', ev)" by (cases a)
  have tb: "textbbox w' = textbbox w" using Cons.prems(1) a by simp
  from step_good[OF Cons.prems(2) tb, of ev] obtain s1 where
    s1: "step w' ev s0 = Inr s1" "consistent w s1" "from_open w' s0 s1"
    by (auto simp: good_step_def)
  have q1: "\<forall>b. original_image s1 = Some b \<longrightarrow> Q b"
    using s1(3) Cons.prems(3,4) a by (fastforce simp: from_open_def)
  have "\<exists>s. run evs s1 = Inr s \<and> consistent w s \<and> (\<forall>b. original_image s = Some b \<longrightarrow> Q b)"
    using Cons.IH[OF _ s1(2) q1] Cons.prems(1,4) by simp
  then show ?case using s1(1) a by (simp add: and_then_def)
qed

lemma init_consistent: "init w0 = Inr s0 \<Longrightarrow> consistent w s0 \<and> original_image s0 = None"
  by (auto simp: init_def consistent_def Let_def split: if_splits sum.splits prod.splits)


lemma init_example: "init example_world = Inr example_init"
  by (simp add: init_def example_world_def example_init_def resource_path_def path_join_def
      load_captions_def Let_def)


lemma render_bottom:
  assumes "bottom_t \<noteq> []"
  shows "drawn (render w fp b top_t bottom_t fs pad m bp) \<noteq> [] \<and>
    last (drawn (render w fp b top_t bottom_t fs pad m bp)) =
      (let font = load_font fp fs;
           bbox = textbbox w (0, 0) bottom_t font;
           text_height = snd (snd (snd bbox)) - fst (snd bbox);
           y = height b - text_height - bp
       in DrawText (m, if y < 0 then max 10 (height b - text_height) else y)
            bottom_t ''white'' font 2 ''black'')"
  using assms by (simp add: render_def Let_def draw_text_def)


lemma strip_empty_iff: "strip t = [] \<longleftrightarrow> (\<forall>c\<in>set t. isspace c)"
  unfolding strip_def
  by (metis dropWhile_eq_Nil_conv set_rev rev_is_Nil_conv dropWhile_idem)

lemma random_gacha_missing:
  "\<not> path_exists w (image_folder s) \<Longrightarrow>
   random_gacha w r1 r2 s =
     Inr (s\<lparr>messages := messages s @
            [MessageBox ''Warning'' (''Images folder not found: '' @ image_folder s)]\<rparr>)"
  by (simp add: random_gacha_def show_message_def)

lemma random_gacha_no_files:
  "path_exists w (image_folder s) \<Longrightarrow> matching_files w s = [] \<Longrightarrow>
   random_gacha w r1 r2 s =
     Inr (s\<lparr>image_files := [],
            messages := messages s @ [MessageBox ''Warning'' ''No images found in images folder!'']\<rparr>)"
  by (simp add: random_gacha_def show_message_def)

lemma random_gacha_open_failed:
  "path_exists w (image_folder s) \<Longrightarrow> matching_files w s \<noteq> [] \<Longrightarrow>
   image_open w (path_join (image_folder s)
      (matching_files w s ! (r1 mod length (matching_files w s)))) = Inl e \<Longrightarrow>
   random_gacha w r1 r2 s =
     Inr (s\<lparr>image_files := matching_files w s,
            messages := messages s @ [MessageBox ''Error'' (''Failed to load image: '' @ exc_text e)],
            image_cur := None, original_image := None\<rparr>)"
  by (simp add: random_gacha_def Let_def try_except_def load_failed_def show_message_def)

lemma load_image_open_failed:
  "file_name \<noteq> [] \<Longrightarrow> image_open w file_name = Inl e \<Longrightarrow>
   load_image w file_name s =
     Inr (s\<lparr>messages := messages s @ [MessageBox ''Error'' (''Failed to load image: '' @ exc_text e)],
            image_cur := None, original_image := None\<rparr>)"
  by (simp add: load_image_def try_except_def load_failed_def show_message_def)

lemma matching_example [simp]:
  "matching_files example_world example_init = [''cat.png'']"
  "matching_files example_broken_world example_init = [''cat.png'']"
  "matching_files example_empty_world example_init = []"
  by (simp_all add: example_world_def example_broken_world_def example_empty_world_def
      example_init_def endswith_def)










section \<open>The claims\<close>

text \<open>
  C1. When \<open>update_canvas\<close> renders a non-empty bottom caption, the last draw call puts
  it at the left margin and at the height \<open>imageHeight - textHeight - bottomPadding\<close>,
  where \<open>textHeight\<close> is the height of the bounding box of the text at the current font;
  when that value is negative the height is \<open>max 10 (imageHeight - textHeight)\<close> instead.
\<close>

theorem bottom_text_y_position:
  assumes "image_cur s = Some cur" "original_image s = Some original" "bottom_text s \<noteq> []"
  shows "\<exists>img. update_canvas w s =
             Inr (s\<lparr>canvas := Some (Pixmap img (canvas_size w)), image_cur := Some img\<rparr>) \<and>
           drawn img \<noteq> [] \<and>
           last (drawn img) =
             (let font = load_font (font_path s) (current_font_size s);
                  bbox = textbbox w (0, 0) (bottom_text s) font;
                  text_height = snd (snd (snd bbox)) - fst (snd bbox);
                  y = height original - text_height - current_bottom_padding s
              in DrawText (current_top_left_margin s,
                           if y < 0 then max 10 (height original - text_height) else y)
                   (bottom_text s) ''white'' font 2 ''black'')"
  using update_canvas_Some[OF assms(1,2), of w] render_bottom[OF assms(3)]
  by blast


theorem bottom_text_y_position_witness:
  "image_cur example_state = Some example_image \<and>
   original_image example_state = Some example_image \<and>
   bottom_text example_state \<noteq> [] \<and>
   (\<exists>img. update_canvas example_world example_state =
             Inr (example_state\<lparr>canvas := Some (Pixmap img (canvas_size example_world)),
                                image_cur := Some img\<rparr>) \<and>
          call_xy (last (drawn img)) = (10, 220)) \<and>
   (\<exists>img. update_canvas example_world (example_state\<lparr>current_bottom_padding := 280\<rparr>) =
             Inr (example_state\<lparr>current_bottom_padding := 280,
                                canvas := Some (Pixmap img (canvas_size example_world)),
                                image_cur := Some img\<rparr>) \<and>
          call_xy (last (drawn img)) = (10, 240))"
proof -
  have a: "image_cur example_state = Some example_image"
    "original_image example_state = Some example_image" "bottom_text example_state \<noteq> []"
    by (simp_all add: example_state_def example_init_def)
  let ?s = "example_state\<lparr>current_bottom_padding := 280\<rparr>"
  have b: "image_cur ?s = Some example_image" "original_image ?s = Some example_image"
    "bottom_text ?s \<noteq> []"
    using a by simp_all
  have 1: "\<exists>img. update_canvas example_world example_state =
             Inr (example_state\<lparr>canvas := Some (Pixmap img (canvas_size example_world)),
                                image_cur := Some img\<rparr>) \<and>
          call_xy (last (drawn img)) = (10, 220)"
    using bottom_text_y_position[OF a, of example_world]
    by (auto simp add: example_state_def example_init_def example_world_def example_image_def Let_def)
  have 2: "\<exists>img. update_canvas example_world ?s =
             Inr (?s\<lparr>canvas := Some (Pixmap img (canvas_size example_world)),
                                image_cur := Some img\<rparr>) \<and>
          call_xy (last (drawn img)) = (10, 240)"
    using bottom_text_y_position[OF b, of example_world]
    by (auto simp add: example_state_def example_init_def example_world_def example_image_def Let_def)
  show ?thesis using a 1 2 by simp
qed

text \<open>
  C2. From the state \<open>__init__\<close> leaves, every session runs to its end without an
  exception, and at its end the current image is the rendering, with the current texts
  and parameters, of the retained original, which is an image that \<open>Image.open\<close> returned
  during the session and not an earlier rendering; with no original there is no current
  image. The text measure of Pillow is the same function throughout the session.
\<close>

theorem render_from_retained_original:
  assumes "init w0 = Inr s0" "\<forall>(w', ev)\<in>set evs. textbbox w' = textbbox w"
  shows "\<exists>s. run evs s0 = Inr s \<and>
    (case original_image s of
       None \<Rightarrow> image_cur s = None
     | Some b \<Rightarrow>
         (\<exists>(w', ev)\<in>set evs. \<exists>p. image_open w' p = Inr b) \<and>
         image_cur s = Some (render w (font_path s) b (top_text s) (bottom_text s)
           (current_font_size s) (current_padding s) (current_top_left_margin s)
           (current_bottom_padding s)))"
proof -
  let ?Q = "\<lambda>b. \<exists>(w', ev)\<in>set evs. \<exists>p. image_open w' p = Inr b"
  have c0: "consistent w s0" and o0: "original_image s0 = None"
    using init_consistent[OF assms(1)] by simp_all
  have "\<exists>s. run evs s0 = Inr s \<and> consistent w s \<and> (\<forall>b. original_image s = Some b \<longrightarrow> ?Q b)"
    by (rule run_good[OF assms(2) c0]) (use o0 in auto)
  then show ?thesis by (auto simp: consistent_def split: option.splits)
qed

theorem render_from_retained_original_witness:
  "init example_world = Inr example_init \<and>
   textbbox example_empty_world = textbbox example_world \<and>
   (\<exists>s. run example_session example_init = Inr s \<and>
    (case original_image s of
       None \<Rightarrow> image_cur s = None
     | Some b \<Rightarrow>
         (\<exists>(w', ev)\<in>set example_session. \<exists>p. image_open w' p = Inr b) \<and>
         image_cur s = Some (render example_world (font_path s) b (top_text s) (bottom_text s)
           (current_font_size s) (current_padding s) (current_top_left_margin s)
           (current_bottom_padding s))))"
proof -
  have h2: "\<forall>(w', ev)\<in>set example_session. textbbox w' = textbbox example_world"
    by (simp add: example_session_def example_empty_world_def)
  have h3: "textbbox example_empty_world = textbbox example_world"
    by (simp add: example_empty_world_def)
  from render_from_retained_original[OF init_example h2] init_example h3
  show ?thesis by blast
qed



text \<open>
  C4. When the captions file is missing, or is read and yields no caption (no row with
  a field), \<open>load_captions\<close> returns the fixed list of fifteen captions, in its order,
  and shows one warning; it does not raise.
\<close>

theorem load_captions_fallback:
  assumes "\<not> path_exists w (resource_path w ''captions.csv'') \<or>
     (\<exists>rows. csv_rows w (resource_path w ''captions.csv'') = Inr rows \<and>
        filter (\<lambda>row. row \<noteq> []) rows = [])"
  shows "\<exists>text. load_captions w = Inr (default_captions, [MessageBox ''Warning'' text]) \<and>
    default_captions =
      [''LOL SO TRUE!'', ''EPIC FAIL!'', ''TOO FUNNY!'', ''MEME LORD!'',
       ''VIRAL VIBES!'', ''SAVAGE MODE!'', ''YOLO SWAG!'', ''BIG MOOD!'',
       ''NO CHILL!'', ''LMAO FOREVER!'', ''SPICY MEME!'', ''BESTIE ENERGY!'',
       ''ROASTED!'', ''ICONIC AF!'', ''SLAY QUEEN!''] \<and>
    length default_captions = 15"
proof -
  have d: "length default_captions = 15" by (simp add: default_captions_def)
  have "\<exists>text. load_captions w = Inr (default_captions, [MessageBox ''Warning'' text])"
    using assms by (auto simp add: load_captions_def Let_def)
  then show ?thesis using d by (simp add: default_captions_def)
qed

theorem load_captions_fallback_witness:
  "\<not> path_exists example_world (resource_path example_world ''captions.csv'') \<and>
   csv_rows (example_csv_world\<lparr>csv_rows := (\<lambda>p. Inr [[], []])\<rparr>)
     (resource_path (example_csv_world\<lparr>csv_rows := (\<lambda>p. Inr [[], []])\<rparr>) ''captions.csv'') =
     Inr [[], []] \<and>
   load_captions example_world =
     Inr (default_captions,
          [MessageBox ''Warning''
             ''Captions file not found: /app/captions.csv. Using default captions.'']) \<and>
   load_captions (example_csv_world\<lparr>csv_rows := (\<lambda>p. Inr [[], []])\<rparr>) =
     Inr (default_captions,
          [MessageBox ''Warning''
             ''Failed to load captions: captions.csv is empty. Using default captions.'']) \<and>
   length default_captions = 15"
proof -
  let ?w = "example_csv_world\<lparr>csv_rows := (\<lambda>p. Inr [[], []])\<rparr>"
  have a: "\<not> path_exists example_world (resource_path example_world ''captions.csv'')"
    by (simp add: example_world_def resource_path_def path_join_def)
  have b: "csv_rows ?w (resource_path ?w ''captions.csv'') = Inr [[], []]"
    by simp
  have 1: "\<exists>text. load_captions example_world = Inr (default_captions, [MessageBox ''Warning'' text]) \<and>
      length default_captions = 15"
    using load_captions_fallback[of example_world] a by blast
  have 2: "\<exists>text. load_captions ?w = Inr (default_captions, [MessageBox ''Warning'' text])"
    using load_captions_fallback[of ?w] b by simp
  have 3: "load_captions example_world =
     Inr (default_captions,
          [MessageBox ''Warning''
             ''Captions file not found: /app/captions.csv. Using default captions.''])"
    using a by (simp add: load_captions_def Let_def example_world_def resource_path_def path_join_def)
  have 4: "load_captions ?w =
     Inr (default_captions,
          [MessageBox ''Warning''
             ''Failed to load captions: captions.csv is empty. Using default captions.''])"
    by (simp add: load_captions_def Let_def example_csv_world_def)
  show ?thesis using a b 1 2 3 4 by simp
qed

text \<open>
  C5, as stated, fails. With an image loaded, choosing a file that Pillow cannot open
  shows the error and then sets both \<open>self.image\<close> and \<open>self.original_image\<close> to \<open>None\<close>
  (lines 236 and 237): the result is not the prior state with the report added.
\<close>

theorem load_failure_preserves_state_counterexample:
  "image_open example_world ''/app/images/broken.png'' =
     Inl (PyError OtherError ''cannot identify image file'') \<and>
   image_cur example_state = Some example_image \<and>
   original_image example_state = Some example_image \<and>
   load_image example_world ''/app/images/broken.png'' example_state =
     Inr (example_state
            \<lparr>messages := messages example_state @
               [MessageBox ''Error'' ''Failed to load image: cannot identify image file''],
             image_cur := None, original_image := None\<rparr>) \<and>
   load_image example_world ''/app/images/broken.png'' example_state \<noteq>
     Inr (example_state
            \<lparr>messages := messages example_state @
               [MessageBox ''Error'' ''Failed to load image: cannot identify image file'']\<rparr>)"
proof -
  have a: "image_open example_world ''/app/images/broken.png'' =
     Inl (PyError OtherError ''cannot identify image file'')"
    by (simp add: example_world_def)
  let ?m = "messages example_state @
               [MessageBox ''Error'' ''Failed to load image: cannot identify image file'']"
  have b: "image_cur example_state = Some example_image"
    "original_image example_state = Some example_image"
    by (simp_all add: example_state_def)
  have c: "load_image example_world ''/app/images/broken.png'' example_state =
     Inr (example_state\<lparr>messages := ?m, image_cur := None, original_image := None\<rparr>)"
    using load_image_open_failed[OF _ a, of example_state] by simp
  have d: "example_state\<lparr>messages := ?m, image_cur := None, original_image := None\<rparr> \<noteq>
      example_state\<lparr>messages := ?m\<rparr>"
  proof
    assume "example_state\<lparr>messages := ?m, image_cur := None, original_image := None\<rparr> =
      example_state\<lparr>messages := ?m\<rparr>"
    then have "image_cur (example_state\<lparr>messages := ?m, image_cur := None, original_image := None\<rparr>) =
      image_cur (example_state\<lparr>messages := ?m\<rparr>)"
      by (rule arg_cong)
    then show False using b by simp
  qed
  show ?thesis using a b c d by simp
qed

text \<open>
  C5, amended. When the chosen file (in \<open>load_image\<close>) or the drawn file (in
  \<open>random_gacha\<close>) cannot be opened, the failure is reported in an error box with the
  exception's text, the current image and the retained original are both reset to
  \<open>None\<close>, and nothing else of the session changes (apart from the listing
  \<open>image_files\<close> that \<open>random_gacha\<close> has stored by then).
\<close>

theorem load_failure_resets_images:
  "(file_name \<noteq> [] \<and> image_open w file_name = Inl e \<longrightarrow>
      load_image w file_name s =
        Inr (s\<lparr>messages := messages s @
                 [MessageBox ''Error'' (''Failed to load image: '' @ exc_text e)],
               image_cur := None, original_image := None\<rparr>)) \<and>
   (path_exists w (image_folder s) \<and> matching_files w s \<noteq> [] \<and>
    image_open w (path_join (image_folder s)
      (matching_files w s ! (r_file mod length (matching_files w s)))) = Inl e \<longrightarrow>
      random_gacha w r_file r_caption s =
        Inr (s\<lparr>image_files := matching_files w s,
               messages := messages s @
                 [MessageBox ''Error'' (''Failed to load image: '' @ exc_text e)],
               image_cur := None, original_image := None\<rparr>))"
  using load_image_open_failed random_gacha_open_failed by blast

theorem load_failure_resets_images_witness:
  "image_open example_broken_world ''/app/images/cat.png'' =
     Inl (PyError OtherError ''cannot identify image file'') \<and>
   path_exists example_broken_world (image_folder example_state) \<and>
   matching_files example_broken_world example_state = [''cat.png''] \<and>
   load_image example_broken_world ''/app/images/cat.png'' example_state =
     Inr (example_state
            \<lparr>messages := messages example_state @
               [MessageBox ''Error'' ''Failed to load image: cannot identify image file''],
             image_cur := None, original_image := None\<rparr>) \<and>
   random_gacha example_broken_world 5 7 example_state =
     Inr (example_state
            \<lparr>image_files := [''cat.png''],
             messages := messages example_state @
               [MessageBox ''Error'' ''Failed to load image: cannot identify image file''],
             image_cur := None, original_image := None\<rparr>)"
proof -
  have a: "image_open example_broken_world ''/app/images/cat.png'' =
     Inl (PyError OtherError ''cannot identify image file'')"
    by (simp add: example_broken_world_def)
  have b: "path_exists example_broken_world (image_folder example_state)"
    by (simp add: example_broken_world_def example_world_def example_state_def example_init_def)
  have c: "matching_files example_broken_world example_state = [''cat.png'']"
    using matching_example(2) by (simp add: example_state_def)
  have d: "path_join (image_folder example_state)
      (matching_files example_broken_world example_state !
         (5 mod length (matching_files example_broken_world example_state))) = ''/app/images/cat.png''"
    by (simp add: c) (simp add: example_state_def example_init_def path_join_def)
  show ?thesis
    using load_failure_resets_images[of "''/app/images/cat.png''" example_broken_world
        "PyError OtherError ''cannot identify image file''" example_state 5 7]
      a b c d
    by simp
qed

text \<open>
  C6. \<open>random_gacha\<close> over a missing images folder, or over one without a file whose name
  ends in \<open>.jpg\<close> or \<open>.png\<close> (in lower case), shows a warning and leaves the session as
  it was: the images, the texts, the parameters, the catalog and the canvas; the only
  attribute written is the listing \<open>image_files\<close>, which is then empty. When the folder
  has matching files, the file draw \<open>i\<close> selects the \<open>i\<close>-th file and the caption draw
  \<open>j\<close> the \<open>j\<close>-th caption, for every pair of draws below the two lengths: the two
  choices are made by separate draws and each index is reached by exactly one draw.
\<close>

theorem gacha_empty_catalog:
  "(\<not> path_exists w (image_folder s) \<longrightarrow>
      random_gacha w r_file r_caption s =
        Inr (s\<lparr>messages := messages s @
               [MessageBox ''Warning'' (''Images folder not found: '' @ image_folder s)]\<rparr>)) \<and>
   (path_exists w (image_folder s) \<and> matching_files w s = [] \<longrightarrow>
      random_gacha w r_file r_caption s =
        Inr (s\<lparr>image_files := [],
               messages := messages s @
                 [MessageBox ''Warning'' ''No images found in images folder!'']\<rparr>)) \<and>
   (path_exists w (image_folder s) \<and> i < length (matching_files w s) \<and>
    j < length (captions s) \<and>
    image_open w (path_join (image_folder s) (matching_files w s ! i)) = Inr img \<longrightarrow>
      (\<exists>s'. random_gacha w i j s = Inr s' \<and> original_image s' = Some img \<and>
            top_text s' = captions s ! j))"
proof (intro conjI impI)
  assume "\<not> path_exists w (image_folder s)"
  then show "random_gacha w r_file r_caption s =
        Inr (s\<lparr>messages := messages s @
               [MessageBox ''Warning'' (''Images folder not found: '' @ image_folder s)]\<rparr>)"
    by (rule random_gacha_missing)
next
  assume "path_exists w (image_folder s) \<and> matching_files w s = []"
  then show "random_gacha w r_file r_caption s =
        Inr (s\<lparr>image_files := [],
               messages := messages s @
                 [MessageBox ''Warning'' ''No images found in images folder!'']\<rparr>)"
    by (simp add: random_gacha_no_files)
next
  assume a: "path_exists w (image_folder s) \<and> i < length (matching_files w s) \<and>
    j < length (captions s) \<and>
    image_open w (path_join (image_folder s) (matching_files w s ! i)) = Inr img"
  then have ne: "matching_files w s \<noteq> []" "captions s \<noteq> []" by auto
  have "image_open w (path_join (image_folder s)
        (matching_files w s ! (i mod length (matching_files w s)))) = Inr img"
    using a by simp
  from random_gacha_success[OF _ ne(1) this ne(2), of j] a
  show "\<exists>s'. random_gacha w i j s = Inr s' \<and> original_image s' = Some img \<and>
            top_text s' = captions s ! j"
    by simp
qed

theorem gacha_empty_catalog_witness:
  "\<not> path_exists (example_world\<lparr>path_exists := (\<lambda>p. False)\<rparr>) (image_folder example_state) \<and>
   random_gacha (example_world\<lparr>path_exists := (\<lambda>p. False)\<rparr>) 1 2 example_state =
     Inr (example_state\<lparr>messages := messages example_state @
            [MessageBox ''Warning'' ''Images folder not found: /app/images'']\<rparr>) \<and>
   path_exists example_empty_world (image_folder example_state) \<and>
   matching_files example_empty_world example_state = [] \<and>
   random_gacha example_empty_world 1 2 example_state =
     Inr (example_state\<lparr>image_files := [],
            messages := messages example_state @
              [MessageBox ''Warning'' ''No images found in images folder!'']\<rparr>) \<and>
   path_exists example_world (image_folder example_init) \<and>
   (0::nat) < length (matching_files example_world example_init) \<and>
   (3::nat) < length (captions example_init) \<and>
   image_open example_world
     (path_join (image_folder example_init) (matching_files example_world example_init ! 0)) =
     Inr example_image \<and>
   (\<exists>s'. random_gacha example_world 0 3 example_init = Inr s' \<and>
         original_image s' = Some example_image \<and> top_text s' = ''MEME LORD!'')"
proof -
  let ?w = "example_world\<lparr>path_exists := (\<lambda>p. False)\<rparr>"
  have a: "\<not> path_exists ?w (image_folder example_state)" by simp
  have f: "image_folder example_state = ''/app/images''" "image_folder example_init = ''/app/images''"
    by (simp_all add: example_state_def example_init_def)
  have b: "path_exists example_empty_world (image_folder example_state)"
    "matching_files example_empty_world example_state = []"
    using matching_example(3)
    by (simp_all add: f example_empty_world_def example_world_def)
  have c: "path_exists example_world (image_folder example_init)"
    "(0::nat) < length (matching_files example_world example_init)"
    "(3::nat) < length (captions example_init)"
    "image_open example_world
       (path_join (image_folder example_init) (matching_files example_world example_init ! 0)) =
     Inr example_image"
    by (simp_all add: matching_example(1))
      (simp_all add: f path_join_def example_world_def, simp add: example_init_def default_captions_def)
  have d: "captions example_init ! 3 = ''MEME LORD!''"
    by (simp add: example_init_def default_captions_def)
  show ?thesis
    using gacha_empty_catalog[of ?w example_state 1 2 0 0 example_image]
      gacha_empty_catalog[of example_empty_world example_state 1 2 0 0 example_image]
      gacha_empty_catalog[of example_world example_init 0 3 0 3 example_image]
      a b c d
    by (simp add: f)
qed

text \<open>
  C7, as stated, fails. The guard of line 202 drops the rows without fields (blank
  lines), not the rows whose first field is empty: from a file with the line \<open>,x\<close> the
  empty string is returned as a caption.
\<close>

theorem load_captions_nonempty_fields_counterexample:
  "path_exists example_csv_world (resource_path example_csv_world ''captions.csv'') \<and>
   csv_rows example_csv_world (resource_path example_csv_world ''captions.csv'') =
     Inr [['''', ''x''], [], [''ROASTED!'', ''y'']] \<and>
   load_captions example_csv_world = Inr (['''', ''ROASTED!''], []) \<and>
   '''' \<in> set ['''', ''ROASTED!'']"
  by (simp add: load_captions_def Let_def example_csv_world_def)

text \<open>
  C7, amended. For a captions file that is read and has at least one row with a field,
  \<open>load_captions\<close> returns, in the order of the rows and without a warning, the first
  field of every row that has a field; a first field that is the empty string is
  returned like any other.
\<close>

theorem load_captions_first_fields:
  assumes "path_exists w (resource_path w ''captions.csv'')"
    "csv_rows w (resource_path w ''captions.csv'') = Inr rows"
    "filter (\<lambda>row. row \<noteq> []) rows \<noteq> []"
  shows "load_captions w = Inr (map hd (filter (\<lambda>row. row \<noteq> []) rows), [])"
  using assms by (simp add: load_captions_def Let_def)

theorem load_captions_first_fields_witness:
  "path_exists example_csv_world (resource_path example_csv_world ''captions.csv'') \<and>
   csv_rows example_csv_world (resource_path example_csv_world ''captions.csv'') =
     Inr [['''', ''x''], [], [''ROASTED!'', ''y'']] \<and>
   filter (\<lambda>row. row \<noteq> []) [['''', ''x''], [], [''ROASTED!'', ''y'']] \<noteq> [] \<and>
   load_captions example_csv_world = Inr (['''', ''ROASTED!''], [])"
proof -
  have a: "path_exists example_csv_world (resource_path example_csv_world ''captions.csv'')"
    "csv_rows example_csv_world (resource_path example_csv_world ''captions.csv'') =
       Inr [['''', ''x''], [], [''ROASTED!'', ''y'']]"
    by (simp_all add: example_csv_world_def)
  have b: "filter (\<lambda>row. row \<noteq> []) [['''', ''x''], [], [''ROASTED!'', ''y'']] \<noteq> []"
    by simp
  from load_captions_first_fields[OF a b] a b show ?thesis by simp
qed

text \<open>
  C8. A confirmed share that goes through posts the fixed promotional string when the
  text of the top field is empty or has white space only, and the text of the top field
  unchanged (not stripped) otherwise.
\<close>

theorem share_text_default_when_blank:
  assumes "image_cur s = Some img" "twitter_ready s"
  shows "share_to_x True None s =
     Inr (show_message ''Success'' ''Meme posted to X!''
            (s\<lparr>tweets := tweets s @
               [(if \<forall>c\<in>set (top_text s). isspace c
                 then ''Check out my meme! #MemeGenerator #MadeByGrok''
                 else top_text s,
                 img, width img > 1280 \<or> height img > 1280)]\<rparr>))"
  using assms by (simp add: share_to_x_def share_text_def strip_empty_iff)

theorem share_text_default_when_blank_witness:
  "image_cur example_state = Some example_image \<and> twitter_ready example_state \<and>
   tweets (projr (share_to_x True None (example_state\<lparr>top_text := ''  ''\<rparr>))) =
     [(''Check out my meme! #MemeGenerator #MadeByGrok'', example_image, False)] \<and>
   tweets (projr (share_to_x True None (example_state\<lparr>top_text := '' so true ''\<rparr>))) =
     [('' so true '', example_image, False)]"
proof -
  have a: "image_cur example_state = Some example_image" "twitter_ready example_state"
    "tweets example_state = []"
    by (simp_all add: example_state_def example_init_def)
  have b: "image_cur (example_state\<lparr>top_text := t\<rparr>) = Some example_image"
    "twitter_ready (example_state\<lparr>top_text := t\<rparr>)" for t
    using a by simp_all
  have c: "\<forall>c\<in>set ''  ''. isspace c" "\<not> (\<forall>c\<in>set '' so true ''. isspace c)"
    by (simp_all add: isspace_def)
  show ?thesis
    using share_text_default_when_blank[OF b, of "''  ''"]
      share_text_default_when_blank[OF b, of "'' so true ''"] a c
    by (simp add: show_message_def example_image_def)
qed




text \<open>
  C10. When \<open>random_gacha\<close> finds the folder, a matching file that opens and a non-empty
  catalog, the top text becomes the caption drawn from the catalog and the bottom text
  becomes empty, whatever both were before.
\<close>

theorem gacha_sets_captions:
  assumes "path_exists w (image_folder s)" "matching_files w s \<noteq> []"
    "image_open w (path_join (image_folder s)
        (matching_files w s ! (r_file mod length (matching_files w s)))) = Inr img"
    "captions s \<noteq> []"
  shows "\<exists>s'. random_gacha w r_file r_caption s = Inr s' \<and>
           top_text s' = captions s ! (r_caption mod length (captions s)) \<and>
           bottom_text s' = [] \<and> original_image s' = Some img"
  using random_gacha_success[OF assms, of r_caption] by simp

theorem gacha_sets_captions_witness:
  "path_exists example_world (image_folder example_state) \<and>
   matching_files example_world example_state = [''cat.png''] \<and>
   image_open example_world ''/app/images/cat.png'' = Inr example_image \<and>
   length (captions example_state) = 15 \<and>
   top_text example_state = [] \<and> bottom_text example_state = ''EPIC FAIL!'' \<and>
   (\<exists>s'. random_gacha example_world 4 16 example_state = Inr s' \<and>
         top_text s' = ''EPIC FAIL!'' \<and> bottom_text s' = [] \<and>
         original_image s' = Some example_image)"
proof -
  have f: "image_folder example_state = ''/app/images''"
    "captions example_state = default_captions"
    "top_text example_state = []" "bottom_text example_state = ''EPIC FAIL!''"
    by (simp_all add: example_state_def example_init_def)
  have m: "matching_files example_world example_state = [''cat.png'']"
    using matching_example(1) by (simp add: f example_init_def)
  have a: "path_exists example_world (image_folder example_state)"
    "matching_files example_world example_state \<noteq> []"
    "image_open example_world (path_join (image_folder example_state)
        (matching_files example_world example_state !
           (4 mod length (matching_files example_world example_state)))) = Inr example_image"
    "captions example_state \<noteq> []"
    by (simp_all add: m) (simp_all add: f path_join_def example_world_def default_captions_def)
  have o: "image_open example_world ''/app/images/cat.png'' = Inr example_image"
    by (simp add: example_world_def)
  have l: "length default_captions = 15" "default_captions ! 1 = ''EPIC FAIL!''"
    by (simp_all add: default_captions_def)
  from gacha_sets_captions[OF a, of 16] show ?thesis
    using a(1) m o f l by simp
qed

end
